theory Spec2Isabelle
  imports Complex_Main
begin

section \<open>Data model of \<open>src/App.tsx\<close>\<close>

text \<open>
  The React component \<open>App\<close> keeps its state in \<open>useState\<close> cells. The cells are
  gathered in one record; every handler of the component becomes a function from the
  state before the event to the state after it. JavaScript numbers that only ever hold
  array indices (\<open>historyIndex\<close>) are integers, coordinates and sizes are reals.
\<close>

record image_file =
  file_bytes :: "nat list"
  file_name :: string
  file_type :: string

record hotspot =
  hx :: real
  hy :: real

record asset_overlay =
  id_ov :: string
  src :: string
  name_ov :: string
  category :: string
  x_ov :: real
  y_ov :: real
  width :: real
  height :: real
  rotation :: real
  opacity :: real
  zIndex :: int

datatype tab = Retouch | Adjust | Filters | Backgrounds | Eyes | Hats | Accessories

record app_state =
  history :: "image_file list"
  historyIndex :: int
  prompt :: string
  isLoading :: bool
  error :: "string option"
  editHotspot :: "hotspot option"
  displayHotspot :: "hotspot option"
  activeTab :: tab
  hasStarted :: bool
  assetOverlays :: "asset_overlay list"
  isEditingAssets :: bool

definition initial_state :: app_state where
  "initial_state =
     \<lparr>history = [], historyIndex = -1, prompt = [], isLoading = False, error = None,
      editHotspot = None, displayHotspot = None, activeTab = Retouch, hasStarted = False,
      assetOverlays = [], isEditingAssets = False\<rparr>"

subsection \<open>JavaScript array primitives\<close>

text \<open>
  \<open>xs[i] ?? null\<close>: an index outside the array reads \<open>undefined\<close>, which \<open>??\<close> turns
  into \<open>null\<close>.
\<close>

definition index_or_null :: "'a list \<Rightarrow> int \<Rightarrow> 'a option" where
  "index_or_null xs i =
     (if 0 \<le> i \<and> i < int (length xs) then Some (xs ! nat i) else None)"

text \<open>\<open>Array.prototype.slice(start, end)\<close> with its treatment of negative bounds.\<close>

definition slice :: "'a list \<Rightarrow> int \<Rightarrow> int \<Rightarrow> 'a list" where
  "slice xs start fin =
     (let len = int (length xs);
          k = (if start < 0 then max (len + start) 0 else min start len);
          final = (if fin < 0 then max (len + fin) 0 else min fin len);
          count = max (final - k) 0
      in take (nat count) (drop (nat k) xs))"

section \<open>History of image versions\<close>

definition currentImage :: "app_state \<Rightarrow> image_file option" where
  "currentImage s = index_or_null (history s) (historyIndex s)"

definition originalImage :: "app_state \<Rightarrow> image_file option" where
  "originalImage s = index_or_null (history s) 0"

definition canUndo :: "app_state \<Rightarrow> bool" where
  "canUndo s \<longleftrightarrow> historyIndex s > 0"

definition canRedo :: "app_state \<Rightarrow> bool" where
  "canRedo s \<longleftrightarrow> historyIndex s < int (length (history s)) - 1"

definition addImageToHistory :: "image_file \<Rightarrow> app_state \<Rightarrow> app_state" where
  "addImageToHistory newImageFile s =
     (let newHistory = slice (history s) 0 (historyIndex s + 1) @ [newImageFile]
      in s\<lparr>history := newHistory, historyIndex := int (length newHistory) - 1\<rparr>)"

definition handleImageUpload :: "image_file \<Rightarrow> app_state \<Rightarrow> app_state" where
  "handleImageUpload f s =
     s\<lparr>error := None, history := [f], historyIndex := 0, editHotspot := None,
       displayHotspot := None, activeTab := Retouch\<rparr>"

definition handleUndo :: "app_state \<Rightarrow> app_state" where
  "handleUndo s =
     (if canUndo s
      then s\<lparr>historyIndex := historyIndex s - 1, editHotspot := None, displayHotspot := None\<rparr>
      else s)"

definition handleRedo :: "app_state \<Rightarrow> app_state" where
  "handleRedo s =
     (if canRedo s
      then s\<lparr>historyIndex := historyIndex s + 1, editHotspot := None, displayHotspot := None\<rparr>
      else s)"

definition handleReset :: "app_state \<Rightarrow> app_state" where
  "handleReset s =
     (if length (history s) > 0
      then s\<lparr>historyIndex := 0, error := None, editHotspot := None, displayHotspot := None\<rparr>
      else s)"

definition handleUploadNew :: "app_state \<Rightarrow> app_state" where
  "handleUploadNew s =
     s\<lparr>history := [], historyIndex := -1, error := None, prompt := [],
       editHotspot := None, displayHotspot := None\<rparr>"


section \<open>Values supplied by the platform\<close>

text \<open>
  A value caught by \<open>catch (err)\<close>: the handlers only ask whether it is an \<open>Error\<close>
  and, if so, read its message.
\<close>

datatype thrown = ErrorObj string | NonError

definition errorMessage :: "thrown \<Rightarrow> string \<Rightarrow> string" where
  "errorMessage err fallback = (case err of ErrorObj m \<Rightarrow> m | NonError \<Rightarrow> fallback)"

text \<open>Decimal rendering of a non-negative integer inside a template literal.\<close>

definition digit_char :: "nat \<Rightarrow> char" where
  "digit_char d = ''0123456789'' ! d"

fun show_nat :: "nat \<Rightarrow> string" where
  "show_nat n =
     (if n < 10 then [digit_char n] else show_nat (n div 10) @ [digit_char (n mod 10)])"

declare show_nat.simps [simp del]

text \<open>
  \<open>String.prototype.trim\<close>, on the white space characters that fit a byte: tab, line
  feed, vertical tab, form feed, carriage return, space and no-break space.
\<close>

definition is_space :: "char \<Rightarrow> bool" where
  "is_space c \<longleftrightarrow> of_char c \<in> {9, 10, 11, 12, 13, 32, 160 :: nat}"

definition trim :: "string \<Rightarrow> string" where
  "trim str = rev (dropWhile is_space (rev (dropWhile is_space str)))"

text \<open>\<open>str.split(',')\<close>: the pieces between the separators, empty pieces included.\<close>

fun split_on :: "char \<Rightarrow> string \<Rightarrow> string list" where
  "split_on c [] = [[]]"
| "split_on c (d # ds) =
     (if d = c then [] # split_on c ds
      else (case split_on c ds of [] \<Rightarrow> [[d]] | p # ps \<Rightarrow> (d # p) # ps))"

text \<open>
  The regular expression \<open>/:(.*?);/\<close>: the capture after the leftmost colon that is
  followed, before any line terminator, by a semicolon; the lazy group stops at the first
  semicolon.
\<close>

fun lazy_group :: "string \<Rightarrow> string option" where
  "lazy_group [] = None"
| "lazy_group (c # cs) =
     (if c = CHR '';'' then Some []
      else if of_char c \<in> {10, 13 :: nat} then None
      else map_option ((#) c) (lazy_group cs))"

fun match_mime :: "string \<Rightarrow> string option" where
  "match_mime [] = None"
| "match_mime (c # cs) =
     (if c = CHR '':''
      then (case lazy_group cs of Some g \<Rightarrow> Some g | None \<Rightarrow> match_mime cs)
      else match_mime cs)"

text \<open>
  The loop \<open>while (n--) u8arr[n] = bstr.charCodeAt(n)\<close>, filling the array from its
  last index down.
\<close>

fun fill_u8 :: "nat \<Rightarrow> string \<Rightarrow> nat list \<Rightarrow> nat list" where
  "fill_u8 0 bstr u8arr = u8arr"
| "fill_u8 (Suc n) bstr u8arr = fill_u8 n bstr (u8arr[n := of_char (bstr ! n) mod 256])"

text \<open>
  \<open>dataURLtoFile\<close>. The base64 decoder \<open>atob\<close> belongs to the browser and is a
  parameter: it returns the decoded binary string or throws.
\<close>

definition dataURLtoFile ::
  "(string \<Rightarrow> thrown + string) \<Rightarrow> string \<Rightarrow> string \<Rightarrow> thrown + image_file" where
  "dataURLtoFile atob dataurl filename =
     (let arr = split_on CHR '','' dataurl in
      if length arr < 2 then Inl (ErrorObj ''Invalid data URL'')
      else
        let mime = (case match_mime (arr ! 0) of
                      None \<Rightarrow> ''image/png''
                    | Some g \<Rightarrow> if g = [] then ''image/png'' else g)
        in case atob (arr ! 1) of
             Inl err \<Rightarrow> Inl err
           | Inr bstr \<Rightarrow>
               Inr \<lparr>file_bytes = fill_u8 (length bstr) bstr (replicate (length bstr) 0),
                    file_name = filename, file_type = mime\<rparr>)"

section \<open>Remote edits\<close>

text \<open>
  The three \<open>async\<close> handlers await one call of the remote service. The awaited result
  is the argument \<open>outcome\<close>: \<open>Inl\<close> for a rejected promise, \<open>Inr\<close> for the data URL the
  service returned. \<open>now\<close> is the value of \<open>Date.now()\<close>. A handler is one step from the
  state in which it was invoked to the state after its \<open>finally\<close> block.
\<close>

definition edit_result ::
  "(string \<Rightarrow> thrown + string) \<Rightarrow> string \<Rightarrow> nat \<Rightarrow> thrown + string \<Rightarrow> thrown + image_file" where
  "edit_result atob purpose now outcome =
     (case outcome of
        Inl err \<Rightarrow> Inl err
      | Inr url \<Rightarrow> dataURLtoFile atob url (purpose @ ''-'' @ show_nat now @ ''.png''))"

definition handleGenerate ::
  "(string \<Rightarrow> thrown + string) \<Rightarrow> nat \<Rightarrow> thrown + string \<Rightarrow> app_state \<Rightarrow> app_state" where
  "handleGenerate atob now outcome s =
     (case currentImage s of
        None \<Rightarrow> s\<lparr>error := Some ''No image loaded to edit.''\<rparr>
      | Some img \<Rightarrow>
          if trim (prompt s) = [] then
            s\<lparr>error := Some ''Please enter a description for your edit.''\<rparr>
          else
            (case editHotspot s of
               None \<Rightarrow> s\<lparr>error := Some ''Please click on the image to select an area to edit.''\<rparr>
             | Some spot \<Rightarrow>
                 let s1 = s\<lparr>isLoading := True, error := None\<rparr> in
                 (case edit_result atob ''edited'' now outcome of
                    Inr newImageFile \<Rightarrow>
                      (addImageToHistory newImageFile s1)
                        \<lparr>editHotspot := None, displayHotspot := None, isLoading := False\<rparr>
                  | Inl err \<Rightarrow>
                      s1\<lparr>error := Some (''Failed to generate the image. ''
                                          @ errorMessage err ''An unknown error occurred.''),
                         isLoading := False\<rparr>)))"

definition handleApplyFilter ::
  "(string \<Rightarrow> thrown + string) \<Rightarrow> string \<Rightarrow> nat \<Rightarrow> thrown + string \<Rightarrow> app_state \<Rightarrow> app_state" where
  "handleApplyFilter atob filterPrompt now outcome s =
     (case currentImage s of
        None \<Rightarrow> s\<lparr>error := Some ''No image loaded to apply a filter to.''\<rparr>
      | Some img \<Rightarrow>
          let s1 = s\<lparr>isLoading := True, error := None\<rparr> in
          (case edit_result atob ''filtered'' now outcome of
             Inr newImageFile \<Rightarrow> (addImageToHistory newImageFile s1)\<lparr>isLoading := False\<rparr>
           | Inl err \<Rightarrow>
               s1\<lparr>error := Some (''Failed to apply the filter. ''
                                   @ errorMessage err ''An unknown error occurred.''),
                  isLoading := False\<rparr>))"

definition handleApplyAdjustment ::
  "(string \<Rightarrow> thrown + string) \<Rightarrow> string \<Rightarrow> nat \<Rightarrow> thrown + string \<Rightarrow> app_state \<Rightarrow> app_state" where
  "handleApplyAdjustment atob adjustmentPrompt now outcome s =
     (case currentImage s of
        None \<Rightarrow> s\<lparr>error := Some ''No image loaded to apply an adjustment to.''\<rparr>
      | Some img \<Rightarrow>
          let s1 = s\<lparr>isLoading := True, error := None\<rparr> in
          (case edit_result atob ''adjusted'' now outcome of
             Inr newImageFile \<Rightarrow> (addImageToHistory newImageFile s1)\<lparr>isLoading := False\<rparr>
           | Inl err \<Rightarrow>
               s1\<lparr>error := Some (''Failed to apply the adjustment. ''
                                   @ errorMessage err ''An unknown error occurred.''),
                  isLoading := False\<rparr>))"

text \<open>
  \<open>loadZazuImage\<close>: the awaited \<open>fetch\<close> either rejects or yields a response, whose
  \<open>blob()\<close> may reject in turn.
\<close>

record response =
  resp_ok :: bool
  resp_status :: nat
  resp_statusText :: string
  resp_blob :: "thrown + nat list"

definition loadZazuImage :: "thrown + response \<Rightarrow> app_state \<Rightarrow> app_state" where
  "loadZazuImage fetched s =
     (let s1 = s\<lparr>isLoading := True, error := None\<rparr>;
          loaded =
            (case fetched of
               Inl err \<Rightarrow> Inl err
             | Inr r \<Rightarrow>
                 if \<not> resp_ok r then
                   Inl (ErrorObj (''Failed to load Zazu image: '' @ show_nat (resp_status r)
                                  @ '' '' @ resp_statusText r))
                 else
                   (case resp_blob r of
                      Inl err \<Rightarrow> Inl err
                    | Inr bytes \<Rightarrow>
                        Inr \<lparr>file_bytes = bytes, file_name = ''zazu.png'',
                             file_type = ''image/png''\<rparr>))
      in case loaded of
           Inr zazuFile \<Rightarrow>
             s1\<lparr>history := [zazuFile], historyIndex := 0, editHotspot := None,
                displayHotspot := None, activeTab := Retouch, hasStarted := True,
                isLoading := False\<rparr>
         | Inl err \<Rightarrow>
             s1\<lparr>error := Some (errorMessage err ''Failed to load Zazu image''),
                isLoading := False\<rparr>)"

section \<open>Asset overlays\<close>

record asset =
  asset_name :: string
  asset_path :: string
  asset_category :: string

text \<open>
  \<open>handleAssetSelect\<close>. The identity of the new overlay is built from \<open>Date.now()\<close>
  and nine base-36 digits of \<open>Math.random()\<close>; both are arguments.
\<close>

definition zIndex_for :: "string \<Rightarrow> int" where
  "zIndex_for cat =
     (if cat = ''eyes'' \<or> cat = ''hats'' \<or> cat = ''accessories'' then 1000
      else if cat = ''characters'' then 500
      else 1)"

definition newOverlay :: "nat \<Rightarrow> string \<Rightarrow> asset \<Rightarrow> asset_overlay" where
  "newOverlay now rnd a =
     \<lparr>id_ov = ''asset-'' @ show_nat now @ ''-'' @ rnd,
      src = asset_path a,
      name_ov = asset_name a,
      category = asset_category a,
      x_ov = (if asset_category a = ''backgrounds'' then 0 else 50),
      y_ov = (if asset_category a = ''backgrounds'' then 0 else 50),
      width = (if asset_category a = ''backgrounds'' then 400 else 100),
      height = (if asset_category a = ''backgrounds'' then 400 else 100),
      rotation = 0,
      opacity = 1,
      zIndex = zIndex_for (asset_category a)\<rparr>"

definition handleAssetSelect :: "nat \<Rightarrow> string \<Rightarrow> asset \<Rightarrow> app_state \<Rightarrow> app_state" where
  "handleAssetSelect now rnd a s =
     (case currentImage s of
        None \<Rightarrow> s\<lparr>error := Some ''No image loaded to add assets to.''\<rparr>
      | Some img \<Rightarrow>
          s\<lparr>assetOverlays := assetOverlays s @ [newOverlay now rnd a],
            isEditingAssets := True\<rparr>)"

text \<open>\<open>Partial<AssetOverlay>\<close>: each field is either absent or carries a new value.\<close>

record overlay_updates =
  upd_id :: "string option"
  upd_src :: "string option"
  upd_name :: "string option"
  upd_category :: "string option"
  upd_x :: "real option"
  upd_y :: "real option"
  upd_width :: "real option"
  upd_height :: "real option"
  upd_rotation :: "real option"
  upd_opacity :: "real option"
  upd_zIndex :: "int option"

definition no_updates :: overlay_updates where
  "no_updates =
     \<lparr>upd_id = None, upd_src = None, upd_name = None, upd_category = None, upd_x = None,
      upd_y = None, upd_width = None, upd_height = None, upd_rotation = None,
      upd_opacity = None, upd_zIndex = None\<rparr>"

definition or_else :: "'a option \<Rightarrow> 'a \<Rightarrow> 'a" where
  "or_else u v = (case u of None \<Rightarrow> v | Some w \<Rightarrow> w)"

text \<open>The object spread \<open>{ ...overlay, ...updates }\<close>.\<close>

definition merge_overlay :: "asset_overlay \<Rightarrow> overlay_updates \<Rightarrow> asset_overlay" where
  "merge_overlay ov u =
     \<lparr>id_ov = or_else (upd_id u) (id_ov ov),
      src = or_else (upd_src u) (src ov),
      name_ov = or_else (upd_name u) (name_ov ov),
      category = or_else (upd_category u) (category ov),
      x_ov = or_else (upd_x u) (x_ov ov),
      y_ov = or_else (upd_y u) (y_ov ov),
      width = or_else (upd_width u) (width ov),
      height = or_else (upd_height u) (height ov),
      rotation = or_else (upd_rotation u) (rotation ov),
      opacity = or_else (upd_opacity u) (opacity ov),
      zIndex = or_else (upd_zIndex u) (zIndex ov)\<rparr>"

definition handleUpdateOverlay :: "string \<Rightarrow> overlay_updates \<Rightarrow> app_state \<Rightarrow> app_state" where
  "handleUpdateOverlay i updates s =
     s\<lparr>assetOverlays :=
         map (\<lambda>overlay. if id_ov overlay = i then merge_overlay overlay updates else overlay)
           (assetOverlays s)\<rparr>"

definition handleRemoveOverlay :: "string \<Rightarrow> app_state \<Rightarrow> app_state" where
  "handleRemoveOverlay i s =
     s\<lparr>assetOverlays := filter (\<lambda>overlay. id_ov overlay \<noteq> i) (assetOverlays s)\<rparr>"

definition handleAddOverlay :: "asset_overlay \<Rightarrow> app_state \<Rightarrow> app_state" where
  "handleAddOverlay overlay s = s\<lparr>assetOverlays := assetOverlays s @ [overlay]\<rparr>"

text \<open>The \<open>Clear All\<close> button: \<open>setAssetOverlays([])\<close>.\<close>

definition clearAll :: "app_state \<Rightarrow> app_state" where
  "clearAll s = s\<lparr>assetOverlays := []\<rparr>"

text \<open>The overlays handed to the \<open>AssetOverlay\<close> component: all but the backgrounds.\<close>

definition foreground :: "asset_overlay list \<Rightarrow> asset_overlay list" where
  "foreground ovs = filter (\<lambda>overlay. category overlay \<noteq> ''backgrounds'') ovs"

definition background :: "asset_overlay list \<Rightarrow> asset_overlay list" where
  "background ovs = filter (\<lambda>overlay. category overlay = ''backgrounds'') ovs"

section \<open>The \<open>AssetOverlay\<close> component: dragging and resizing\<close>

record rect =
  rect_left :: real
  rect_top :: real
  rect_width :: real
  rect_height :: real

record overlay_state =
  dragging :: "string option"
  dragStart :: "real \<times> real"
  resizing :: "string option"

definition initial_overlay_state :: overlay_state where
  "initial_overlay_state = \<lparr>dragging = None, dragStart = (0, 0), resizing = None\<rparr>"

datatype action = Drag | Resize

text \<open>Truthiness of a \<open>string | null\<close>: \<open>null\<close> and the empty string are falsy.\<close>

definition truthy :: "string option \<Rightarrow> bool" where
  "truthy v = (case v of None \<Rightarrow> False | Some str \<Rightarrow> str \<noteq> [])"

text \<open>
  The handlers read the container's rectangle through \<open>containerRef.current\<close>, which
  may be absent; \<open>cx\<close> and \<open>cy\<close> are \<open>e.clientX\<close> and \<open>e.clientY\<close>.
\<close>

definition handleMouseDown ::
  "rect option \<Rightarrow> real \<Rightarrow> real \<Rightarrow> string \<Rightarrow> action \<Rightarrow> overlay_state \<Rightarrow> overlay_state" where
  "handleMouseDown container cx cy overlayId act st =
     (let armed = (case act of
                   Drag \<Rightarrow> st\<lparr>dragging := Some overlayId\<rparr>
                 | Resize \<Rightarrow> st\<lparr>resizing := Some overlayId\<rparr>)
      in case container of
           None \<Rightarrow> armed
         | Some r \<Rightarrow> armed\<lparr>dragStart := (cx - rect_left r, cy - rect_top r)\<rparr>)"

text \<open>
  \<open>handleMouseMove\<close> returns the call of \<open>onUpdateOverlay\<close> it makes, if any, and the
  component's next state.
\<close>

definition handleMouseMove ::
  "rect option \<Rightarrow> real \<Rightarrow> real \<Rightarrow> asset_overlay list \<Rightarrow> overlay_state
     \<Rightarrow> (string \<times> overlay_updates) option \<times> overlay_state" where
  "handleMouseMove container cx cy overlays st =
     (if \<not> truthy (dragging st) \<and> \<not> truthy (resizing st) then (None, st)
      else
        (case container of
           None \<Rightarrow> (None, st)
         | Some r \<Rightarrow>
             let currentX = cx - rect_left r;
                 currentY = cy - rect_top r;
                 deltaX = currentX - fst (dragStart st);
                 deltaY = currentY - snd (dragStart st);
                 target = (if truthy (dragging st) then dragging st else resizing st)
             in (case find (\<lambda>ov. Some (id_ov ov) = target) overlays of
                   None \<Rightarrow> (None, st)
                 | Some overlay \<Rightarrow>
                     let call =
                       (if truthy (dragging st) then
                          Some (id_ov overlay,
                            no_updates
                              \<lparr>upd_x := Some (max 0 (min (rect_width r - width overlay)
                                                        (x_ov overlay + deltaX))),
                               upd_y := Some (max 0 (min (rect_height r - height overlay)
                                                        (y_ov overlay + deltaY)))\<rparr>)
                        else if truthy (resizing st) then
                          Some (id_ov overlay,
                            no_updates
                              \<lparr>upd_width := Some (max 20 (width overlay + deltaX)),
                               upd_height := Some (max 20 (height overlay + deltaY))\<rparr>)
                        else None)
                     in (call, st\<lparr>dragStart := (currentX, currentY)\<rparr>))))"

definition handleMouseUp :: "overlay_state \<Rightarrow> overlay_state" where
  "handleMouseUp st = st\<lparr>dragging := None, resizing := None\<rparr>"

section \<open>Flattening: \<open>handleDownload\<close>\<close>

text \<open>
  The calls made on the 2D context, in the order they are made, once the container and
  the context have been obtained. An image whose load fails resolves its promise without
  drawing; \<open>loads\<close> tells which sources load. \<open>currentImageUrl\<close> is the object URL
  of the current image, or \<open>null\<close>.
\<close>

datatype canvas_call =
    SetFillStyle string
  | FillRect real real real real
  | Save
  | SetGlobalAlpha real
  | Translate real real
  | Rotate real
  | DrawImage string real real real real
  | Restore

definition canvas_width :: real where
  "canvas_width = 400"

definition canvas_height :: real where
  "canvas_height = 400"

definition drawImage ::
  "(string \<Rightarrow> bool) \<Rightarrow> string \<Rightarrow> real \<Rightarrow> real \<Rightarrow> real \<Rightarrow> real \<Rightarrow> real \<Rightarrow> real
     \<Rightarrow> canvas_call list" where
  "drawImage loads source px py w h rot alpha =
     (if loads source then
        [Save, SetGlobalAlpha alpha]
        @ (if rot \<noteq> 0 then
             let centerX = px + w / 2; centerY = py + h / 2
             in [Translate centerX centerY, Rotate (rot * pi / 180),
                 Translate (- centerX) (- centerY)]
           else [])
        @ [DrawImage source px py w h, Restore]
      else [])"

definition drawAsset :: "(string \<Rightarrow> bool) \<Rightarrow> asset_overlay \<Rightarrow> canvas_call list" where
  "drawAsset loads a =
     drawImage loads (src a) (x_ov a) (y_ov a) (width a) (height a) (rotation a) (opacity a)"

definition zazuSize :: real where
  "zazuSize = 380"

definition zazuX :: real where
  "zazuX = (canvas_width - zazuSize) / 2"

definition zazuY :: real where
  "zazuY = canvas_height - zazuSize"

definition drawComposition ::
  "(string \<Rightarrow> bool) \<Rightarrow> asset_overlay list \<Rightarrow> string option \<Rightarrow> canvas_call list" where
  "drawComposition loads overlays currentImageUrl =
     concat (map (drawAsset loads) (background overlays))
     @ (case currentImageUrl of
          None \<Rightarrow> []
        | Some url \<Rightarrow>
            if url \<noteq> [] then drawImage loads url zazuX zazuY zazuSize zazuSize 0 1 else [])
     @ concat (map (drawAsset loads) (foreground overlays))"

definition handleDownload ::
  "(string \<Rightarrow> bool) \<Rightarrow> asset_overlay list \<Rightarrow> string option \<Rightarrow> canvas_call list" where
  "handleDownload loads overlays currentImageUrl =
     [SetFillStyle ''#ffffff'', FillRect 0 0 canvas_width canvas_height]
     @ drawComposition loads overlays currentImageUrl"

text \<open>The images put on the canvas, in drawing order, each with its box.\<close>

fun drawn :: "canvas_call list \<Rightarrow> (string \<times> real \<times> real \<times> real \<times> real) list" where
  "drawn [] = []"
| "drawn (DrawImage source px py w h # cs) = (source, px, py, w, h) # drawn cs"
| "drawn (c # cs) = drawn cs"

definition box :: "asset_overlay \<Rightarrow> string \<times> real \<times> real \<times> real \<times> real" where
  "box a = (src a, x_ov a, y_ov a, width a, height a)"

section \<open>Events\<close>

text \<open>
  \<open>handleImageClick\<close> stores the two points it computes from the geometry of the
  clicked image; the points are the arguments.
\<close>

definition handleImageClick :: "hotspot \<Rightarrow> hotspot \<Rightarrow> app_state \<Rightarrow> app_state" where
  "handleImageClick display original s =
     (if activeTab s \<noteq> Retouch then s
      else s\<lparr>displayHotspot := Some display, editHotspot := Some original\<rparr>)"

definition selectTab :: "tab \<Rightarrow> app_state \<Rightarrow> app_state" where
  "selectTab t s = s\<lparr>activeTab := t, isEditingAssets := False\<rparr>"

record ui_state =
  app :: app_state
  comp :: overlay_state

definition initial_ui :: ui_state where
  "initial_ui = \<lparr>app = initial_state, comp = initial_overlay_state\<rparr>"

text \<open>
  A pointer move over the component: the handler runs on the foreground overlays and
  the update it requests is applied by \<open>handleUpdateOverlay\<close>.
\<close>

definition mouseMove :: "rect option \<Rightarrow> real \<Rightarrow> real \<Rightarrow> ui_state \<Rightarrow> ui_state" where
  "mouseMove container cx cy u =
     (case handleMouseMove container cx cy (foreground (assetOverlays (app u))) (comp u) of
        (call, st) \<Rightarrow>
          \<lparr>app = (case call of
                    None \<Rightarrow> app u
                  | Some (i, updates) \<Rightarrow> handleUpdateOverlay i updates (app u)),
           comp = st\<rparr>)"

datatype event =
    EvLoadZazu "thrown + response"
  | EvImageUpload image_file
  | EvSetPrompt string
  | EvImageClick hotspot hotspot
  | EvGenerate nat "thrown + string"
  | EvApplyFilter string nat "thrown + string"
  | EvApplyAdjustment string nat "thrown + string"
  | EvUndo
  | EvRedo
  | EvReset
  | EvUploadNew
  | EvDismissError
  | EvSelectTab tab
  | EvAssetSelect nat string asset
  | EvUpdateOverlay string overlay_updates
  | EvRemoveOverlay string
  | EvAddOverlay asset_overlay
  | EvClearAll
  | EvMouseDown "rect option" real real string action
  | EvMouseMove "rect option" real real
  | EvMouseUp

definition on_app :: "(app_state \<Rightarrow> app_state) \<Rightarrow> ui_state \<Rightarrow> ui_state" where
  "on_app f u = u\<lparr>app := f (app u)\<rparr>"

definition on_comp :: "(overlay_state \<Rightarrow> overlay_state) \<Rightarrow> ui_state \<Rightarrow> ui_state" where
  "on_comp f u = u\<lparr>comp := f (comp u)\<rparr>"

fun step :: "(string \<Rightarrow> thrown + string) \<Rightarrow> event \<Rightarrow> ui_state \<Rightarrow> ui_state" where
  "step atob (EvLoadZazu fetched) u = on_app (loadZazuImage fetched) u"
| "step atob (EvImageUpload f) u = on_app (handleImageUpload f) u"
| "step atob (EvSetPrompt p) u = on_app (\<lambda>s. s\<lparr>prompt := p\<rparr>) u"
| "step atob (EvImageClick display original) u = on_app (handleImageClick display original) u"
| "step atob (EvGenerate now outcome) u = on_app (handleGenerate atob now outcome) u"
| "step atob (EvApplyFilter p now outcome) u = on_app (handleApplyFilter atob p now outcome) u"
| "step atob (EvApplyAdjustment p now outcome) u =
     on_app (handleApplyAdjustment atob p now outcome) u"
| "step atob EvUndo u = on_app handleUndo u"
| "step atob EvRedo u = on_app handleRedo u"
| "step atob EvReset u = on_app handleReset u"
| "step atob EvUploadNew u = on_app handleUploadNew u"
| "step atob EvDismissError u = on_app (\<lambda>s. s\<lparr>error := None\<rparr>) u"
| "step atob (EvSelectTab t) u = on_app (selectTab t) u"
| "step atob (EvAssetSelect now rnd a) u = on_app (handleAssetSelect now rnd a) u"
| "step atob (EvUpdateOverlay i updates) u = on_app (handleUpdateOverlay i updates) u"
| "step atob (EvRemoveOverlay i) u = on_app (handleRemoveOverlay i) u"
| "step atob (EvAddOverlay overlay) u = on_app (handleAddOverlay overlay) u"
| "step atob EvClearAll u = on_app clearAll u"
| "step atob (EvMouseDown container cx cy i act) u =
     on_comp (handleMouseDown container cx cy i act) u"
| "step atob (EvMouseMove container cx cy) u = mouseMove container cx cy u"
| "step atob EvMouseUp u = on_comp handleMouseUp u"

fun run :: "(string \<Rightarrow> thrown + string) \<Rightarrow> event list \<Rightarrow> ui_state \<Rightarrow> ui_state" where
  "run atob [] u = u"
| "run atob (ev # evs) u = run atob evs (step atob ev u)"

text \<open>The cursor is on an entry of the sequence, or the sequence is empty and it is \<open>-1\<close>.\<close>

definition cursor_ok :: "app_state \<Rightarrow> bool" where
  "cursor_ok s \<longleftrightarrow>
     (history s = [] \<and> historyIndex s = -1)
     \<or> (0 \<le> historyIndex s \<and> historyIndex s < int (length (history s)))"

section \<open>Sample data\<close>

text \<open>Concrete versions, states and sessions on which the theorems below are exercised.\<close>

definition fileA :: image_file where
  "fileA = \<lparr>file_bytes = [65], file_name = ''a.png'', file_type = ''image/png''\<rparr>"
definition fileB :: image_file where
  "fileB = \<lparr>file_bytes = [66], file_name = ''b.png'', file_type = ''image/png''\<rparr>"
definition fileC :: image_file where
  "fileC = \<lparr>file_bytes = [67], file_name = ''c.png'', file_type = ''image/png''\<rparr>"
definition fileD :: image_file where
  "fileD = \<lparr>file_bytes = [68], file_name = ''d.png'', file_type = ''image/png''\<rparr>"

definition abc_at :: "int \<Rightarrow> app_state" where
  "abc_at i = initial_state\<lparr>history := [fileA, fileB, fileC], historyIndex := i\<rparr>"

definition atob_sample :: "string \<Rightarrow> thrown + string" where
  "atob_sample b =
     (if b = ''QQ=='' then Inr ''A''
      else if b = ''Qg=='' then Inr ''B''
      else Inl (ErrorObj ''The string to be decoded is not correctly encoded.''))"

definition zazu_response :: response where
  "zazu_response =
     \<lparr>resp_ok = True, resp_status = 200, resp_statusText = ''OK'',
      resp_blob = Inr [137, 80, 78, 71]\<rparr>"

definition zazuFile :: image_file where
  "zazuFile = \<lparr>file_bytes = [137, 80, 78, 71], file_name = ''zazu.png'', file_type = ''image/png''\<rparr>"

definition filteredFile :: image_file where
  "filteredFile = \<lparr>file_bytes = [65], file_name = ''filtered-1700.png'', file_type = ''image/png''\<rparr>"

definition adjustedFile :: image_file where
  "adjustedFile = \<lparr>file_bytes = [66], file_name = ''adjusted-1701.png'', file_type = ''image/jpeg''\<rparr>"

definition with_history :: "image_file list \<Rightarrow> int \<Rightarrow> app_state" where
  "with_history h i = initial_state\<lparr>history := h, historyIndex := i, hasStarted := True\<rparr>"

definition session_edits :: "event list" where
  "session_edits =
     [EvLoadZazu (Inr zazu_response),
      EvApplyFilter ''sepia'' 1700 (Inr ''data:image/png;base64,QQ==''),
      EvApplyAdjustment ''brighter'' 1701 (Inr ''data:image/jpeg;base64,Qg==''),
      EvUndo]"

definition eyes_asset :: asset where
  "eyes_asset = \<lparr>asset_name = ''8bit Glasses'', asset_path = ''/assets/eyes/8bit-glasses.png'',
                  asset_category = ''eyes''\<rparr>"

definition green_asset :: asset where
  "green_asset = \<lparr>asset_name = ''Green'', asset_path = ''/assets/backgrounds/green.jpg'',
                   asset_category = ''backgrounds''\<rparr>"


definition decorated :: app_state where
  "decorated = handleAssetSelect 1702 ''k3j9x0q1z'' eyes_asset (with_history [zazuFile] 0)"

definition ready_to_edit :: app_state where
  "ready_to_edit =
     decorated\<lparr>prompt := ''add a hat'', editHotspot := Some \<lparr>hx = 120, hy = 80\<rparr>,
               displayHotspot := Some \<lparr>hx = 60, hy = 40\<rparr>\<rparr>"

definition all_load :: "string \<Rightarrow> bool" where
  "all_load source = True"

definition shades :: asset_overlay where
  "shades =
     \<lparr>id_ov = ''asset-1-a'', src = ''/assets/eyes/8bit-glasses.png'', name_ov = ''8bit Glasses'',
      category = ''eyes'', x_ov = 150, y_ov = 90, width = 100, height = 40, rotation = 0,
      opacity = 1, zIndex = 0\<rparr>"

definition backdrop :: asset_overlay where
  "backdrop =
     \<lparr>id_ov = ''asset-2-b'', src = ''/assets/backgrounds/green.jpg'', name_ov = ''Green'',
      category = ''backgrounds'', x_ov = 0, y_ov = 0, width = 400, height = 400, rotation = 0,
      opacity = 1, zIndex = 2000\<rparr>"

definition chain :: asset_overlay where
  "chain =
     \<lparr>id_ov = ''asset-3-c'', src = ''/assets/extras/goldchain.png'', name_ov = ''Gold Chain'',
      category = ''accessories'', x_ov = 160, y_ov = 200, width = 80, height = 60, rotation = 90,
      opacity = 1 / 2, zIndex = -5\<rparr>"


definition box400 :: rect where
  "box400 = \<lparr>rect_left = 0, rect_top = 0, rect_width = 400, rect_height = 400\<rparr>"

definition glasses_id :: string where
  "glasses_id = ''asset-1702-k3j9x0q1z''"

definition glasses_at :: "real \<Rightarrow> real \<Rightarrow> real \<Rightarrow> real \<Rightarrow> asset_overlay" where
  "glasses_at px py w h =
     \<lparr>id_ov = glasses_id, src = ''/assets/eyes/8bit-glasses.png'', name_ov = ''8bit Glasses'',
      category = ''eyes'', x_ov = px, y_ov = py, width = w, height = h, rotation = 0,
      opacity = 1, zIndex = 1000\<rparr>"

definition holding :: "asset_overlay \<Rightarrow> overlay_state \<Rightarrow> ui_state" where
  "holding ov st =
     \<lparr>app = (with_history [zazuFile] 0)\<lparr>assetOverlays := [ov], isEditingAssets := True\<rparr>,
      comp = st\<rparr>"

definition session_oversize :: "event list" where
  "session_oversize =
     [EvLoadZazu (Inr zazu_response),
      EvAssetSelect 1702 ''k3j9x0q1z'' eyes_asset,
      EvMouseDown (Some box400) 140 140 glasses_id Resize,
      EvMouseMove (Some box400) 399 399,
      EvMouseUp,
      EvMouseDown (Some box400) 60 60 glasses_id Drag,
      EvMouseMove (Some box400) 10 10,
      EvMouseUp,
      EvMouseDown (Some box400) 350 350 glasses_id Resize,
      EvMouseMove (Some box400) 399 399,
      EvMouseUp,
      EvMouseDown (Some box400) 100 100 glasses_id Drag]"

definition oversized :: ui_state where
  "oversized =
     holding (glasses_at 0 0 408 408)
       \<lparr>dragging = Some glasses_id, dragStart = (100, 100), resizing = None\<rparr>"

section \<open>Properties of the history\<close>

subsection \<open>Appending\<close>

lemma slice_prefix:
  "0 \<le> e \<Longrightarrow> slice xs 0 e = take (nat e) xs"
  by (simp add: slice_def Let_def min_def)

lemma index_or_null_take_snoc:
  assumes "0 \<le> j" and "nat j < n" and "n \<le> length xs"
  shows "index_or_null (take n xs @ [v]) j = index_or_null xs j"
proof -
  have a: "nat j < length (take n xs)" using assms by simp
  have b: "nat j < length xs" using assms by simp
  have c: "j < int (length xs)" using assms by linarith
  have d: "j < int (length (take n xs @ [v]))" using assms by simp
  have "(take n xs @ [v]) ! nat j = xs ! nat j"
    using a assms by (simp add: nth_append)
  then show ?thesis
    using assms c d unfolding index_or_null_def by simp
qed

text \<open>
  Claim C1. Appending a version to a history with sequence \<open>s\<close> and cursor \<open>i\<close>,
  \<open>0 \<le> i < |s|\<close>, yields the first \<open>i + 1\<close> versions followed by the new one, with the
  cursor on the new last entry, which is then the current version: the versions after the
  old cursor are gone and the prefix up to the cursor is kept.
\<close>

theorem addImageToHistory_truncates:
  assumes "0 \<le> historyIndex s" and "historyIndex s < int (length (history s))"
  shows "history (addImageToHistory v s) = take (nat (historyIndex s) + 1) (history s) @ [v]
    \<and> historyIndex (addImageToHistory v s) = historyIndex s + 1
    \<and> int (length (history (addImageToHistory v s))) = historyIndex s + 2
    \<and> currentImage (addImageToHistory v s) = Some v
    \<and> (\<forall>j. 0 \<le> j \<and> j \<le> historyIndex s \<longrightarrow>
          index_or_null (history (addImageToHistory v s)) j = index_or_null (history s) j)"
proof -
  let ?i = "historyIndex s"
  let ?p = "take (nat ?i + 1) (history s)"
  have sl: "slice (history s) 0 (?i + 1) = ?p"
    using assms by (simp add: slice_prefix nat_add_distrib)
  have len: "length ?p = nat ?i + 1"
    using assms by simp
  have h: "history (addImageToHistory v s) = ?p @ [v]"
    by (simp add: addImageToHistory_def Let_def sl)
  have c: "historyIndex (addImageToHistory v s) = ?i + 1"
    using assms by (simp add: addImageToHistory_def Let_def sl)
  have l: "int (length (history (addImageToHistory v s))) = ?i + 2"
    using assms by (simp add: h)
  have cur: "currentImage (addImageToHistory v s) = Some v"
    using assms len by (simp add: currentImage_def index_or_null_def h c nth_append nat_add_distrib)
  have pre: "index_or_null (history (addImageToHistory v s)) j = index_or_null (history s) j"
    if "0 \<le> j \<and> j \<le> ?i" for j
  proof -
    have "nat j < nat ?i + 1" using that assms by linarith
    moreover have "nat ?i + 1 \<le> length (history s)" using assms by linarith
    ultimately show ?thesis
      using that index_or_null_take_snoc [of j "nat ?i + 1" "history s" v]
      unfolding h by blast
  qed
  show ?thesis using h c l cur pre by blast
qed

theorem addImageToHistory_truncates_witness:
  "history (addImageToHistory fileD (abc_at 1)) = [fileA, fileB, fileD]
   \<and> historyIndex (addImageToHistory fileD (abc_at 1)) = 2
   \<and> currentImage (addImageToHistory fileD (abc_at 1)) = Some fileD
   \<and> fileC \<notin> set (history (addImageToHistory fileD (abc_at 1)))"
  using addImageToHistory_truncates [of "abc_at 1" fileD]
  by (simp add: abc_at_def initial_state_def fileA_def fileB_def fileC_def fileD_def)

subsection \<open>The cursor invariant\<close>

lemma cursor_ok_addImageToHistory: "cursor_ok (addImageToHistory f s)"
  by (simp add: cursor_ok_def addImageToHistory_def Let_def)

lemma cursor_ok_handleUndo: "cursor_ok s \<Longrightarrow> cursor_ok (handleUndo s)"
  by (auto simp: cursor_ok_def handleUndo_def canUndo_def)

lemma cursor_ok_handleRedo: "cursor_ok s \<Longrightarrow> cursor_ok (handleRedo s)"
  by (auto simp: cursor_ok_def handleRedo_def canRedo_def)

lemma cursor_ok_handleReset: "cursor_ok s \<Longrightarrow> cursor_ok (handleReset s)"
  by (auto simp: cursor_ok_def handleReset_def)

lemma cursor_ok_handleUploadNew: "cursor_ok (handleUploadNew s)"
  by (simp add: cursor_ok_def handleUploadNew_def)

lemma cursor_ok_handleImageUpload: "cursor_ok (handleImageUpload f s)"
  by (simp add: cursor_ok_def handleImageUpload_def)

lemma cursor_ok_loadZazuImage: "cursor_ok s \<Longrightarrow> cursor_ok (loadZazuImage fetched s)"
  by (auto simp: cursor_ok_def loadZazuImage_def Let_def split: sum.splits)

lemma cursor_ok_handleGenerate: "cursor_ok s \<Longrightarrow> cursor_ok (handleGenerate atob now outcome s)"
  using cursor_ok_addImageToHistory
  by (auto simp: handleGenerate_def Let_def cursor_ok_def split: option.splits sum.splits)

lemma cursor_ok_handleApplyFilter:
  "cursor_ok s \<Longrightarrow> cursor_ok (handleApplyFilter atob p now outcome s)"
  using cursor_ok_addImageToHistory
  by (auto simp: handleApplyFilter_def Let_def cursor_ok_def split: option.splits sum.splits)

lemma cursor_ok_handleApplyAdjustment:
  "cursor_ok s \<Longrightarrow> cursor_ok (handleApplyAdjustment atob p now outcome s)"
  using cursor_ok_addImageToHistory
  by (auto simp: handleApplyAdjustment_def Let_def cursor_ok_def split: option.splits sum.splits)

lemma cursor_ok_step: "cursor_ok (app u) \<Longrightarrow> cursor_ok (app (step atob ev u))"
proof (cases ev)
  case (EvMouseMove container cx cy)
  assume ok: "cursor_ok (app u)"
  have "history (app (mouseMove container cx cy u)) = history (app u)
      \<and> historyIndex (app (mouseMove container cx cy u)) = historyIndex (app u)"
    by (simp add: mouseMove_def handleUpdateOverlay_def split: prod.splits option.splits)
  then show ?thesis using ok EvMouseMove by (simp add: cursor_ok_def)
qed (simp_all add: on_app_def on_comp_def cursor_ok_loadZazuImage cursor_ok_handleImageUpload
       cursor_ok_handleGenerate cursor_ok_handleApplyFilter cursor_ok_handleApplyAdjustment
       cursor_ok_handleUndo cursor_ok_handleRedo cursor_ok_handleReset cursor_ok_handleUploadNew,
     simp_all add: cursor_ok_def handleImageClick_def selectTab_def handleAssetSelect_def
       handleUpdateOverlay_def handleRemoveOverlay_def handleAddOverlay_def clearAll_def
       split: option.splits)

lemma cursor_ok_run: "cursor_ok (app u) \<Longrightarrow> cursor_ok (app (run atob evs u))"
  by (induction evs arbitrary: u) (simp_all add: cursor_ok_step)

lemma cursor_ok_initial: "cursor_ok (app initial_ui)"
  by (simp add: cursor_ok_def initial_ui_def initial_state_def)

text \<open>
  Claim C2. In every state reached from the initial one by any sequence of events
  (loading, appending through a remote edit, undo, redo, reset, upload-new and every
  other handler), the cursor is \<open>-1\<close> exactly when the sequence is empty; otherwise
  it lies between \<open>0\<close> and the last index and the current image is the entry under
  the cursor; undo is possible exactly when the cursor is positive and redo exactly when
  the cursor is before the last index.
\<close>

theorem cursor_invariant:
  fixes atob evs
  defines "s \<equiv> app (run atob evs initial_ui)"
  shows "(historyIndex s = -1 \<longleftrightarrow> history s = [])
    \<and> (history s \<noteq> [] \<longrightarrow>
          0 \<le> historyIndex s \<and> historyIndex s \<le> int (length (history s)) - 1
          \<and> currentImage s = Some (history s ! nat (historyIndex s)))
    \<and> (canUndo s \<longleftrightarrow> historyIndex s > 0)
    \<and> (canRedo s \<longleftrightarrow> historyIndex s < int (length (history s)) - 1)"
proof -
  have ok: "cursor_ok s"
    unfolding s_def by (rule cursor_ok_run [OF cursor_ok_initial])
  then show ?thesis
    by (auto simp: cursor_ok_def currentImage_def index_or_null_def canUndo_def canRedo_def)
qed

text \<open>A session of two edits and one undo, evaluated step by step.\<close>

lemma edit_result_filtered: "edit_result atob_sample ''filtered'' 1700 (Inr ''data:image/png;base64,QQ=='')
   = Inr filteredFile"
  by (simp add: edit_result_def dataURLtoFile_def atob_sample_def Let_def show_nat.simps
        digit_char_def filteredFile_def)

lemma edit_result_adjusted: "edit_result atob_sample ''adjusted'' 1701 (Inr ''data:image/jpeg;base64,Qg=='')
   = Inr adjustedFile"
  by (simp add: edit_result_def dataURLtoFile_def atob_sample_def Let_def show_nat.simps
        digit_char_def adjustedFile_def)

lemma loaded_zazu: "loadZazuImage (Inr zazu_response) initial_state = with_history [zazuFile] 0"
  by (simp add: loadZazuImage_def zazu_response_def initial_state_def zazuFile_def with_history_def)

lemma applied_filter: "handleApplyFilter atob_sample ''sepia'' 1700 (Inr ''data:image/png;base64,QQ=='')
     (with_history [zazuFile] 0) = with_history [zazuFile, filteredFile] 1"
  by (simp add: handleApplyFilter_def edit_result_filtered currentImage_def index_or_null_def with_history_def
       initial_state_def addImageToHistory_def slice_def Let_def)

lemma applied_adjustment: "handleApplyAdjustment atob_sample ''brighter'' 1701 (Inr ''data:image/jpeg;base64,Qg=='')
     (with_history [zazuFile, filteredFile] 1) = with_history [zazuFile, filteredFile, adjustedFile] 2"
  by (simp add: handleApplyAdjustment_def edit_result_adjusted currentImage_def index_or_null_def with_history_def
       initial_state_def addImageToHistory_def slice_def Let_def)

lemma undone_once: "handleUndo (with_history [zazuFile, filteredFile, adjustedFile] 2)
    = with_history [zazuFile, filteredFile, adjustedFile] 1"
  by (simp add: handleUndo_def canUndo_def with_history_def initial_state_def)

lemma run_session_edits:
  "app (run atob_sample session_edits initial_ui)
     = with_history [zazuFile, filteredFile, adjustedFile] 1"
  by (simp add: session_edits_def initial_ui_def on_app_def loaded_zazu applied_filter applied_adjustment undone_once)

theorem cursor_invariant_witness:
  "history (app (run atob_sample session_edits initial_ui)) \<noteq> []
   \<and> historyIndex (app (run atob_sample session_edits initial_ui)) = 1
   \<and> currentImage (app (run atob_sample session_edits initial_ui)) = Some filteredFile
   \<and> canUndo (app (run atob_sample session_edits initial_ui))
   \<and> canRedo (app (run atob_sample session_edits initial_ui))"
  using cursor_invariant [of atob_sample session_edits]
  by (simp add: run_session_edits with_history_def initial_state_def)

subsection \<open>Reset and upload-new\<close>

text \<open>
  Claim C3. Resetting an empty history changes nothing. On a non-empty history, wherever
  the cursor is, it puts the cursor on index \<open>0\<close>, so that the current image is the
  first, original version; the sequence keeps its length and its entries, and redo is
  possible afterwards exactly when there are versions after the original.
\<close>

theorem handleReset_rewinds:
  "(history s = [] \<longrightarrow> handleReset s = s)
   \<and> (history s \<noteq> [] \<longrightarrow>
        historyIndex (handleReset s) = 0
        \<and> currentImage (handleReset s) = Some (hd (history s))
        \<and> currentImage (handleReset s) = originalImage s
        \<and> history (handleReset s) = history s
        \<and> (canRedo (handleReset s) \<longleftrightarrow> 1 < length (history s)))"
  by (cases "history s")
     (auto simp: handleReset_def currentImage_def originalImage_def index_or_null_def canRedo_def)

theorem handleReset_rewinds_witness:
  "history (abc_at 2) \<noteq> []
   \<and> historyIndex (handleReset (abc_at 2)) = 0
   \<and> currentImage (handleReset (abc_at 2)) = Some fileA
   \<and> history (handleReset (abc_at 2)) = [fileA, fileB, fileC]
   \<and> canRedo (handleReset (abc_at 2))
   \<and> history initial_state = [] \<and> handleReset initial_state = initial_state"
  using handleReset_rewinds [of "abc_at 2"] handleReset_rewinds [of initial_state]
  by (simp add: abc_at_def initial_state_def)

text \<open>
  Claim C8, as the code has it. Upload-new empties the sequence and puts the cursor on
  \<open>-1\<close>, so that no image is current; the overlays are left as they were.
\<close>

theorem handleUploadNew_clears_history:
  "history (handleUploadNew s) = []
   \<and> historyIndex (handleUploadNew s) = -1
   \<and> currentImage (handleUploadNew s) = None
   \<and> assetOverlays (handleUploadNew s) = assetOverlays s"
  by (simp add: handleUploadNew_def currentImage_def index_or_null_def)

text \<open>An overlay added before upload-new is still there afterwards.\<close>

lemma decorated_overlays:
  "assetOverlays decorated = [newOverlay 1702 ''k3j9x0q1z'' eyes_asset]"
  by (simp add: decorated_def handleAssetSelect_def currentImage_def index_or_null_def
        with_history_def initial_state_def)

theorem handleUploadNew_keeps_overlays:
  "\<not> (history (handleUploadNew decorated) = []
       \<and> historyIndex (handleUploadNew decorated) = -1
       \<and> assetOverlays (handleUploadNew decorated) = [])"
  by (simp add: handleUploadNew_def decorated_overlays)

section \<open>Properties of asset selection\<close>

text \<open>
  Claim C10. When no image is current, which is the case whenever the history is empty,
  selecting an asset leaves the overlays as they are and only sets the error message;
  so a selection that changes the overlays was made while an image was current.
\<close>

theorem handleAssetSelect_needs_image:
  "(history s = [] \<longrightarrow> currentImage s = None)
   \<and> (currentImage s = None \<longrightarrow>
        handleAssetSelect now rnd a s = s\<lparr>error := Some ''No image loaded to add assets to.''\<rparr>
        \<and> assetOverlays (handleAssetSelect now rnd a s) = assetOverlays s
        \<and> error (handleAssetSelect now rnd a s) = Some ''No image loaded to add assets to.'')
   \<and> (assetOverlays (handleAssetSelect now rnd a s) \<noteq> assetOverlays s \<longrightarrow>
        currentImage s \<noteq> None)"
  by (auto simp: handleAssetSelect_def currentImage_def index_or_null_def split: option.splits)

theorem handleAssetSelect_needs_image_witness:
  "history initial_state = [] \<and> currentImage initial_state = None
   \<and> assetOverlays (handleAssetSelect 1702 ''k3j9x0q1z'' eyes_asset initial_state) = []
   \<and> error (handleAssetSelect 1702 ''k3j9x0q1z'' eyes_asset initial_state)
       = Some ''No image loaded to add assets to.''
   \<and> assetOverlays decorated \<noteq> assetOverlays (with_history [zazuFile] 0)
   \<and> currentImage (with_history [zazuFile] 0) \<noteq> None"
  using handleAssetSelect_needs_image [of initial_state 1702 "''k3j9x0q1z''" eyes_asset]
    handleAssetSelect_needs_image [of "with_history [zazuFile] 0" 1702 "''k3j9x0q1z''" eyes_asset]
  by (simp add: decorated_def handleAssetSelect_def currentImage_def index_or_null_def
        with_history_def initial_state_def)

text \<open>
  Claim C6. While an image is current, selecting an asset appends one overlay. It has
  rotation \<open>0\<close> and opacity \<open>1\<close>. For a background asset it sits at \<open>(0, 0)\<close>, has the
  size of the canvas and stacking order \<open>1\<close>; for an eyes, hats or accessories asset
  it sits at \<open>(50, 50)\<close>, measures \<open>100\<close> by \<open>100\<close> and has stacking order \<open>1000\<close>.
\<close>

theorem handleAssetSelect_defaults:
  assumes "currentImage s \<noteq> None"
  shows "assetOverlays (handleAssetSelect now rnd a s) = assetOverlays s @ [newOverlay now rnd a]
    \<and> rotation (newOverlay now rnd a) = 0
    \<and> opacity (newOverlay now rnd a) = 1
    \<and> (asset_category a = ''backgrounds'' \<longrightarrow>
          x_ov (newOverlay now rnd a) = 0 \<and> y_ov (newOverlay now rnd a) = 0
          \<and> width (newOverlay now rnd a) = canvas_width
          \<and> height (newOverlay now rnd a) = canvas_height
          \<and> zIndex (newOverlay now rnd a) = 1)
    \<and> (asset_category a = ''eyes'' \<or> asset_category a = ''hats''
          \<or> asset_category a = ''accessories'' \<longrightarrow>
          x_ov (newOverlay now rnd a) = 50 \<and> y_ov (newOverlay now rnd a) = 50
          \<and> width (newOverlay now rnd a) = 100 \<and> height (newOverlay now rnd a) = 100
          \<and> zIndex (newOverlay now rnd a) = 1000)"
proof -
  have "assetOverlays (handleAssetSelect now rnd a s) = assetOverlays s @ [newOverlay now rnd a]"
    using assms by (auto simp: handleAssetSelect_def split: option.splits)
  moreover have "rotation (newOverlay now rnd a) = 0 \<and> opacity (newOverlay now rnd a) = 1"
    by (simp add: newOverlay_def)
  moreover have "asset_category a = ''backgrounds'' \<longrightarrow>
          x_ov (newOverlay now rnd a) = 0 \<and> y_ov (newOverlay now rnd a) = 0
          \<and> width (newOverlay now rnd a) = canvas_width
          \<and> height (newOverlay now rnd a) = canvas_height
          \<and> zIndex (newOverlay now rnd a) = 1"
    by (simp add: newOverlay_def zIndex_for_def canvas_width_def canvas_height_def)
  moreover have "asset_category a = ''eyes'' \<or> asset_category a = ''hats''
          \<or> asset_category a = ''accessories'' \<longrightarrow>
          x_ov (newOverlay now rnd a) = 50 \<and> y_ov (newOverlay now rnd a) = 50
          \<and> width (newOverlay now rnd a) = 100 \<and> height (newOverlay now rnd a) = 100
          \<and> zIndex (newOverlay now rnd a) = 1000"
    by (auto simp: newOverlay_def zIndex_for_def)
  ultimately show ?thesis by blast
qed

lemma currentImage_with_history: "currentImage (with_history [zazuFile] 0) = Some zazuFile"
  by (simp add: currentImage_def index_or_null_def with_history_def initial_state_def)

theorem handleAssetSelect_defaults_witness:
  "currentImage (with_history [zazuFile] 0) \<noteq> None
   \<and> asset_category green_asset = ''backgrounds''
   \<and> assetOverlays (handleAssetSelect 1703 ''a1b2c3d4e'' green_asset (with_history [zazuFile] 0))
       = [\<lparr>id_ov = ''asset-1703-a1b2c3d4e'', src = ''/assets/backgrounds/green.jpg'',
           name_ov = ''Green'', category = ''backgrounds'', x_ov = 0, y_ov = 0, width = 400,
           height = 400, rotation = 0, opacity = 1, zIndex = 1\<rparr>]
   \<and> asset_category eyes_asset = ''eyes''
   \<and> assetOverlays (handleAssetSelect 1702 ''k3j9x0q1z'' eyes_asset (with_history [zazuFile] 0))
       = [\<lparr>id_ov = ''asset-1702-k3j9x0q1z'', src = ''/assets/eyes/8bit-glasses.png'',
           name_ov = ''8bit Glasses'', category = ''eyes'', x_ov = 50, y_ov = 50, width = 100,
           height = 100, rotation = 0, opacity = 1, zIndex = 1000\<rparr>]"
proof -
  have c: "currentImage (with_history [zazuFile] 0) \<noteq> None"
    by (simp add: currentImage_with_history)
  have o: "assetOverlays (with_history [zazuFile] 0) = []"
    by (simp add: with_history_def initial_state_def)
  have g: "newOverlay 1703 ''a1b2c3d4e'' green_asset
      = \<lparr>id_ov = ''asset-1703-a1b2c3d4e'', src = ''/assets/backgrounds/green.jpg'',
           name_ov = ''Green'', category = ''backgrounds'', x_ov = 0, y_ov = 0, width = 400,
           height = 400, rotation = 0, opacity = 1, zIndex = 1\<rparr>"
    by (simp add: newOverlay_def green_asset_def zIndex_for_def show_nat.simps digit_char_def)
  have e: "newOverlay 1702 ''k3j9x0q1z'' eyes_asset
      = \<lparr>id_ov = ''asset-1702-k3j9x0q1z'', src = ''/assets/eyes/8bit-glasses.png'',
           name_ov = ''8bit Glasses'', category = ''eyes'', x_ov = 50, y_ov = 50, width = 100,
           height = 100, rotation = 0, opacity = 1, zIndex = 1000\<rparr>"
    by (simp add: newOverlay_def eyes_asset_def zIndex_for_def show_nat.simps digit_char_def)
  have cg: "asset_category green_asset = ''backgrounds''" by (simp add: green_asset_def)
  have ce: "asset_category eyes_asset = ''eyes''" by (simp add: eyes_asset_def)
  show ?thesis
    using handleAssetSelect_defaults [OF c, of 1703 "''a1b2c3d4e''" green_asset]
      handleAssetSelect_defaults [OF c, of 1702 "''k3j9x0q1z''" eyes_asset]
    by (simp add: c o g e cg ce)
qed

section \<open>Properties of the remote edits\<close>

text \<open>Whether the awaited result yields a file does not depend on the file name.\<close>

lemma edit_result_failure_any_purpose:
  "edit_result atob p now outcome = Inl err \<Longrightarrow> edit_result atob q later outcome = Inl err"
  by (auto simp: edit_result_def dataURLtoFile_def Let_def split: sum.splits if_splits)

text \<open>
  Claim C9. When the awaited remote call of an edit, a filter or an adjustment fails
  (the promise rejects, or the returned data URL cannot be turned into a file), the
  handler leaves the state as it was except for the error message, which is set to the
  handler's prefix followed by the failure's message, and the busy flag, which is
  cleared: the history, the cursor and the overlays are unchanged.
\<close>

theorem failed_edit_changes_nothing:
  assumes "edit_result atob purpose now outcome = Inl err"
    and "currentImage s \<noteq> None"
  shows "(trim (prompt s) \<noteq> [] \<and> editHotspot s \<noteq> None \<longrightarrow>
           handleGenerate atob now outcome s
             = s\<lparr>isLoading := False,
                  error := Some (''Failed to generate the image. ''
                                 @ errorMessage err ''An unknown error occurred.'')\<rparr>)
    \<and> handleApplyFilter atob filterPrompt now outcome s
         = s\<lparr>isLoading := False,
              error := Some (''Failed to apply the filter. ''
                             @ errorMessage err ''An unknown error occurred.'')\<rparr>
    \<and> handleApplyAdjustment atob adjustmentPrompt now outcome s
         = s\<lparr>isLoading := False,
              error := Some (''Failed to apply the adjustment. ''
                             @ errorMessage err ''An unknown error occurred.'')\<rparr>
    \<and> (\<forall>s' \<in> {handleGenerate atob now outcome s,
                 handleApplyFilter atob filterPrompt now outcome s,
                 handleApplyAdjustment atob adjustmentPrompt now outcome s}.
          history s' = history s \<and> historyIndex s' = historyIndex s
          \<and> assetOverlays s' = assetOverlays s \<and> error s' \<noteq> None)"
proof -
  obtain img where img: "currentImage s = Some img"
    using assms(2) by blast
  have e: "edit_result atob ''edited'' now outcome = Inl err"
    using assms(1) by (rule edit_result_failure_any_purpose)
  have f: "edit_result atob ''filtered'' now outcome = Inl err"
    using assms(1) by (rule edit_result_failure_any_purpose)
  have a: "edit_result atob ''adjusted'' now outcome = Inl err"
    using assms(1) by (rule edit_result_failure_any_purpose)
  have g1: "handleGenerate atob now outcome s
             = s\<lparr>isLoading := False,
                  error := Some (''Failed to generate the image. ''
                                 @ errorMessage err ''An unknown error occurred.'')\<rparr>"
    if "trim (prompt s) \<noteq> [] \<and> editHotspot s \<noteq> None"
    using that img e by (auto simp: handleGenerate_def Let_def)
  have g2: "history (handleGenerate atob now outcome s) = history s
      \<and> historyIndex (handleGenerate atob now outcome s) = historyIndex s
      \<and> assetOverlays (handleGenerate atob now outcome s) = assetOverlays s
      \<and> error (handleGenerate atob now outcome s) \<noteq> None"
    using img e by (auto simp: handleGenerate_def Let_def split: option.splits)
  have f1: "handleApplyFilter atob filterPrompt now outcome s
         = s\<lparr>isLoading := False,
              error := Some (''Failed to apply the filter. ''
                             @ errorMessage err ''An unknown error occurred.'')\<rparr>"
    using img f by (simp add: handleApplyFilter_def Let_def)
  have a1: "handleApplyAdjustment atob adjustmentPrompt now outcome s
         = s\<lparr>isLoading := False,
              error := Some (''Failed to apply the adjustment. ''
                             @ errorMessage err ''An unknown error occurred.'')\<rparr>"
    using img a by (simp add: handleApplyAdjustment_def Let_def)
  have f2: "history (handleApplyFilter atob filterPrompt now outcome s) = history s
      \<and> historyIndex (handleApplyFilter atob filterPrompt now outcome s) = historyIndex s
      \<and> assetOverlays (handleApplyFilter atob filterPrompt now outcome s) = assetOverlays s
      \<and> error (handleApplyFilter atob filterPrompt now outcome s) \<noteq> None"
    unfolding f1 by simp
  have a2: "history (handleApplyAdjustment atob adjustmentPrompt now outcome s) = history s
      \<and> historyIndex (handleApplyAdjustment atob adjustmentPrompt now outcome s) = historyIndex s
      \<and> assetOverlays (handleApplyAdjustment atob adjustmentPrompt now outcome s) = assetOverlays s
      \<and> error (handleApplyAdjustment atob adjustmentPrompt now outcome s) \<noteq> None"
    unfolding a1 by simp
  show ?thesis
    using g1 g2 f1 f2 a1 a2 by blast
qed

lemma currentImage_ready: "currentImage ready_to_edit = Some zazuFile"
  by (simp add: ready_to_edit_def decorated_def handleAssetSelect_def currentImage_def
        index_or_null_def with_history_def initial_state_def)

lemma malformed_result:
  "edit_result atob_sample ''edited'' 1704 (Inr ''not a data url'')
     = Inl (ErrorObj ''Invalid data URL'')"
  by (simp add: edit_result_def dataURLtoFile_def Let_def)

theorem failed_edit_changes_nothing_witness:
  "edit_result atob_sample ''edited'' 1704 (Inr ''not a data url'')
     = Inl (ErrorObj ''Invalid data URL'')
   \<and> currentImage ready_to_edit \<noteq> None
   \<and> trim (prompt ready_to_edit) \<noteq> [] \<and> editHotspot ready_to_edit \<noteq> None
   \<and> handleGenerate atob_sample 1704 (Inr ''not a data url'') ready_to_edit
       = ready_to_edit\<lparr>isLoading := False,
           error := Some ''Failed to generate the image. Invalid data URL''\<rparr>
   \<and> history (handleApplyFilter atob_sample ''sepia'' 1704 (Inr ''not a data url'') ready_to_edit)
       = [zazuFile]
   \<and> assetOverlays
        (handleApplyAdjustment atob_sample ''warmer'' 1704 (Inr ''not a data url'') ready_to_edit)
       = [newOverlay 1702 ''k3j9x0q1z'' eyes_asset]"
proof -
  have c: "currentImage ready_to_edit \<noteq> None"
    by (simp add: currentImage_ready)
  have t: "trim (prompt ready_to_edit) \<noteq> []"
    by (simp add: ready_to_edit_def trim_def is_space_def)
  have h: "editHotspot ready_to_edit \<noteq> None"
    by (simp add: ready_to_edit_def)
  have hist: "history ready_to_edit = [zazuFile]"
    by (simp add: ready_to_edit_def decorated_def handleAssetSelect_def currentImage_def
        index_or_null_def with_history_def initial_state_def)
  have ovs: "assetOverlays ready_to_edit = [newOverlay 1702 ''k3j9x0q1z'' eyes_asset]"
    by (simp add: ready_to_edit_def decorated_overlays)
  show ?thesis
    using failed_edit_changes_nothing [OF malformed_result c, of "''sepia''" "''warmer''"]
    by (simp add: malformed_result c t h hist ovs errorMessage_def)
qed

section \<open>Properties of flattening\<close>

lemma drawn_append: "drawn (cs @ ds) = drawn cs @ drawn ds"
  by (induction cs rule: drawn.induct) simp_all

lemma drawn_drawImage:
  "drawn (drawImage loads source px py w h rot alpha)
     = (if loads source then [(source, px, py, w, h)] else [])"
  by (simp add: drawImage_def Let_def)

lemma drawn_drawAssets:
  "drawn (concat (map (drawAsset loads) ovs)) = filter (\<lambda>d. loads (fst d)) (map box ovs)"
  by (induction ovs) (simp_all add: drawn_append drawAsset_def drawn_drawImage box_def)

lemma drawn_drawComposition:
  "url \<noteq> [] \<Longrightarrow>
   drawn (drawComposition loads overlays (Some url))
     = filter (\<lambda>d. loads (fst d))
         (map box (background overlays) @ [(url, zazuX, zazuY, zazuSize, zazuSize)]
          @ map box (foreground overlays))"
  by (simp add: drawComposition_def drawn_append drawn_drawAssets drawn_drawImage)

lemma drawn_handleDownload:
  "drawn (handleDownload loads overlays cur) = drawn (drawComposition loads overlays cur)"
  by (simp add: handleDownload_def)

lemma drawAsset_zIndex: "drawAsset loads (ov\<lparr>zIndex := z\<rparr>) = drawAsset loads ov"
  by (simp add: drawAsset_def)

lemma background_zIndex:
  "background (map (\<lambda>ov. ov\<lparr>zIndex := z ov\<rparr>) ovs) = map (\<lambda>ov. ov\<lparr>zIndex := z ov\<rparr>) (background ovs)"
  by (induction ovs) (simp_all add: background_def)

lemma foreground_zIndex:
  "foreground (map (\<lambda>ov. ov\<lparr>zIndex := z ov\<rparr>) ovs) = map (\<lambda>ov. ov\<lparr>zIndex := z ov\<rparr>) (foreground ovs)"
  by (induction ovs) (simp_all add: foreground_def)

lemma drawComposition_zIndex:
  "drawComposition loads (map (\<lambda>ov. ov\<lparr>zIndex := z ov\<rparr>) overlays) cur
     = drawComposition loads overlays cur"
  by (simp add: drawComposition_def background_zIndex foreground_zIndex drawAsset_zIndex o_def)

lemma drawAsset_calls:
  "drawAsset loads
     = (\<lambda>a. if loads (src a)
            then [Save, SetGlobalAlpha (opacity a)]
                 @ (if rotation a \<noteq> 0
                    then [Translate (x_ov a + width a / 2) (y_ov a + height a / 2),
                          Rotate (rotation a * pi / 180),
                          Translate (- (x_ov a + width a / 2)) (- (y_ov a + height a / 2))]
                    else [])
                 @ [DrawImage (src a) (x_ov a) (y_ov a) (width a) (height a), Restore]
            else [])"
  by (rule ext) (simp add: drawAsset_def drawImage_def Let_def)

lemma handleDownload_calls:
  "url \<noteq> [] \<Longrightarrow>
   handleDownload loads overlays (Some url)
     = [SetFillStyle ''#ffffff'', FillRect 0 0 400 400]
       @ concat (map (drawAsset loads) (filter (\<lambda>a. category a = ''backgrounds'') overlays))
       @ (if loads url then [Save, SetGlobalAlpha 1, DrawImage url 10 20 380 380, Restore] else [])
       @ concat (map (drawAsset loads) (filter (\<lambda>a. category a \<noteq> ''backgrounds'') overlays))"
  by (simp add: handleDownload_def drawComposition_def background_def foreground_def
        drawImage_def zazuX_def zazuY_def zazuSize_def canvas_width_def canvas_height_def)

lemma drawn_layers:
  "drawn (concat (map (drawAsset loads) ovs))
     = filter (\<lambda>d. loads (fst d)) (map (\<lambda>a. (src a, x_ov a, y_ov a, width a, height a)) ovs)"
  using drawn_drawAssets [of loads ovs] by (simp add: box_def [abs_def])

lemma drawn_handleDownload_explicit:
  "url \<noteq> [] \<Longrightarrow>
   drawn (handleDownload loads overlays (Some url))
     = filter (\<lambda>d. loads (fst d))
         (map (\<lambda>a. (src a, x_ov a, y_ov a, width a, height a))
            (filter (\<lambda>a. category a = ''backgrounds'') overlays)
          @ [(url, 10, 20, 380, 380)]
          @ map (\<lambda>a. (src a, x_ov a, y_ov a, width a, height a))
              (filter (\<lambda>a. category a \<noteq> ''backgrounds'') overlays))"
  by (simp add: handleDownload_calls drawn_append drawn_layers)

text \<open>
  Claim C4. For every list of overlays and every base image, the calls made on the
  canvas are exactly these, in this order: the white fill of the \<open>400\<close> by \<open>400\<close>
  canvas; for every overlay of category \<open>backgrounds\<close>, in list order, a layer; for
  the base image a layer at \<open>(10, 20)\<close> with side \<open>380\<close>, unrotated and opaque; for
  every overlay of any other category, in list order, a layer; and nothing after that.
  The layer of an overlay whose source loads saves the context, sets the overlay's
  opacity, turns the context by the overlay's rotation about the centre of its box if
  the rotation is not \<open>0\<close>, draws the image into the box and restores the context; an
  overlay whose source fails to load contributes no call. The base image is centred
  horizontally and touches the bottom edge. Changing the stacking-order values of the
  overlays changes no call.
\<close>

theorem drawComposition_fixed_order:
  assumes "url \<noteq> []"
  shows "(let layer = (\<lambda>a. if loads (src a)
                then [Save, SetGlobalAlpha (opacity a)]
                     @ (if rotation a \<noteq> 0
                        then [Translate (x_ov a + width a / 2) (y_ov a + height a / 2),
                              Rotate (rotation a * pi / 180),
                              Translate (- (x_ov a + width a / 2)) (- (y_ov a + height a / 2))]
                        else [])
                     @ [DrawImage (src a) (x_ov a) (y_ov a) (width a) (height a), Restore]
                else [])
          in handleDownload loads overlays (Some url)
             = [SetFillStyle ''#ffffff'', FillRect 0 0 400 400]
               @ concat (map layer (filter (\<lambda>a. category a = ''backgrounds'') overlays))
               @ (if loads url
                  then [Save, SetGlobalAlpha 1, DrawImage url 10 20 380 380, Restore]
                  else [])
               @ concat (map layer (filter (\<lambda>a. category a \<noteq> ''backgrounds'') overlays)))
    \<and> drawn (handleDownload loads overlays (Some url))
        = filter (\<lambda>d. loads (fst d))
            (map (\<lambda>a. (src a, x_ov a, y_ov a, width a, height a))
               (filter (\<lambda>a. category a = ''backgrounds'') overlays)
             @ [(url, 10, 20, 380, 380)]
             @ map (\<lambda>a. (src a, x_ov a, y_ov a, width a, height a))
                 (filter (\<lambda>a. category a \<noteq> ''backgrounds'') overlays))
    \<and> canvas_width = 400 \<and> canvas_height = 400
    \<and> 10 + 380 / 2 = canvas_width / 2 \<and> 20 + 380 = canvas_height
    \<and> handleDownload loads (map (\<lambda>ov. ov\<lparr>zIndex := z ov\<rparr>) overlays) (Some url)
        = handleDownload loads overlays (Some url)"
proof -
  have calls: "handleDownload loads overlays (Some url)
     = [SetFillStyle ''#ffffff'', FillRect 0 0 400 400]
       @ concat (map (drawAsset loads) (filter (\<lambda>a. category a = ''backgrounds'') overlays))
       @ (if loads url then [Save, SetGlobalAlpha 1, DrawImage url 10 20 380 380, Restore] else [])
       @ concat (map (drawAsset loads) (filter (\<lambda>a. category a \<noteq> ''backgrounds'') overlays))"
    using assms by (rule handleDownload_calls)
  have order: "drawn (handleDownload loads overlays (Some url))
        = filter (\<lambda>d. loads (fst d))
            (map (\<lambda>a. (src a, x_ov a, y_ov a, width a, height a))
               (filter (\<lambda>a. category a = ''backgrounds'') overlays)
             @ [(url, 10, 20, 380, 380)]
             @ map (\<lambda>a. (src a, x_ov a, y_ov a, width a, height a))
                 (filter (\<lambda>a. category a \<noteq> ''backgrounds'') overlays))"
    using assms by (rule drawn_handleDownload_explicit)
  have place: "canvas_width = 400 \<and> canvas_height = 400
      \<and> 10 + 380 / 2 = canvas_width / 2 \<and> 20 + 380 = canvas_height"
    by (simp add: canvas_width_def canvas_height_def)
  have stack: "handleDownload loads (map (\<lambda>ov. ov\<lparr>zIndex := z ov\<rparr>) overlays) (Some url)
        = handleDownload loads overlays (Some url)"
    by (simp add: handleDownload_def drawComposition_zIndex)
  show ?thesis
    unfolding Let_def using calls [unfolded drawAsset_calls] order place stack by blast
qed

theorem drawComposition_fixed_order_witness:
  "''blob:zazu'' \<noteq> []
   \<and> map zIndex [shades, backdrop, chain] = [0, 2000, -5]
   \<and> handleDownload all_load [shades, backdrop, chain] (Some ''blob:zazu'')
       = [SetFillStyle ''#ffffff'', FillRect 0 0 400 400,
          Save, SetGlobalAlpha 1, DrawImage ''/assets/backgrounds/green.jpg'' 0 0 400 400, Restore,
          Save, SetGlobalAlpha 1, DrawImage ''blob:zazu'' 10 20 380 380, Restore,
          Save, SetGlobalAlpha 1, DrawImage ''/assets/eyes/8bit-glasses.png'' 150 90 100 40, Restore,
          Save, SetGlobalAlpha (1 / 2), Translate 200 230, Rotate (90 * pi / 180),
          Translate (- 200) (- 230),
          DrawImage ''/assets/extras/goldchain.png'' 160 200 80 60, Restore]"
proof -
  have nonempty: "''blob:zazu'' \<noteq> []" by simp
  have cats: "category shades = ''eyes''" "category backdrop = ''backgrounds''"
    "category chain = ''accessories''"
    by (simp_all add: shades_def backdrop_def chain_def)
  have fields: "src chain = ''/assets/extras/goldchain.png''" "opacity chain = 1 / 2"
    "rotation chain = 90" "x_ov chain = 160" "y_ov chain = 200" "width chain = 80"
    "height chain = 60"
    "src shades = ''/assets/eyes/8bit-glasses.png''" "opacity shades = 1"
    "rotation shades = 0" "x_ov shades = 150" "y_ov shades = 90" "width shades = 100"
    "height shades = 40"
    "src backdrop = ''/assets/backgrounds/green.jpg''" "opacity backdrop = 1"
    "rotation backdrop = 0" "x_ov backdrop = 0" "y_ov backdrop = 0" "width backdrop = 400"
    "height backdrop = 400"
    "zIndex shades = 0" "zIndex backdrop = 2000" "zIndex chain = -5"
    by (simp_all add: chain_def shades_def backdrop_def)
  show ?thesis
    using drawComposition_fixed_order [OF nonempty, of all_load "[shades, backdrop, chain]"]
    by (simp add: Let_def cats fields all_load_def)
qed





section \<open>Properties of dragging and resizing\<close>

text \<open>An update of position or size keeps identity and category, hence the target found.\<close>

lemma id_merge_moved:
  "upd_id u = None \<Longrightarrow> id_ov (merge_overlay ov u) = id_ov ov"
  by (simp add: merge_overlay_def or_else_def)

lemma category_merge_moved:
  "upd_category u = None \<Longrightarrow> category (merge_overlay ov u) = category ov"
  by (simp add: merge_overlay_def or_else_def)

lemma find_after_update:
  assumes "upd_id u = None" and "upd_category u = None"
  shows "find (\<lambda>ov. Some (id_ov ov) = Some i)
           (foreground (map (\<lambda>ov. if id_ov ov = i then merge_overlay ov u else ov) ovs))
         = map_option (\<lambda>ov. merge_overlay ov u)
             (find (\<lambda>ov. Some (id_ov ov) = Some i) (foreground ovs))"
  using assms
  by (induction ovs) (auto simp: foreground_def id_merge_moved category_merge_moved)

lemma handleMouseMove_drag:
  assumes "dragging st = Some i" and "i \<noteq> []"
    and "find (\<lambda>ov. Some (id_ov ov) = Some i) overlays = Some ov"
  shows "handleMouseMove (Some r) cx cy overlays st
     = (Some (id_ov ov,
          no_updates
            \<lparr>upd_x := Some (max 0 (min (rect_width r - width ov)
                       (x_ov ov + (cx - rect_left r - fst (dragStart st))))),
             upd_y := Some (max 0 (min (rect_height r - height ov)
                       (y_ov ov + (cy - rect_top r - snd (dragStart st)))))\<rparr>),
        st\<lparr>dragStart := (cx - rect_left r, cy - rect_top r)\<rparr>)"
  using assms by (simp add: handleMouseMove_def truthy_def Let_def)

lemma handleMouseMove_resize:
  assumes "\<not> truthy (dragging st)" and "resizing st = Some i" and "i \<noteq> []"
    and "find (\<lambda>ov. Some (id_ov ov) = Some i) overlays = Some ov"
  shows "handleMouseMove (Some r) cx cy overlays st
     = (Some (id_ov ov,
          no_updates
            \<lparr>upd_width := Some (max 20 (width ov + (cx - rect_left r - fst (dragStart st)))),
             upd_height := Some (max 20 (height ov + (cy - rect_top r - snd (dragStart st))))\<rparr>),
        st\<lparr>dragStart := (cx - rect_left r, cy - rect_top r)\<rparr>)"
  using assms by (simp add: handleMouseMove_def truthy_def Let_def)

lemma find_id: "find (\<lambda>ov. Some (id_ov ov) = Some i) ovs = Some ov \<Longrightarrow> id_ov ov = i"
  by (induction ovs) (auto split: if_splits)

lemma mouseMove_drag:
  assumes "dragging (comp u) = Some i" and "i \<noteq> []"
    and "find (\<lambda>ov. Some (id_ov ov) = Some i) (foreground (assetOverlays (app u))) = Some ov"
  shows "app (mouseMove (Some r) cx cy u)
     = handleUpdateOverlay i
         (no_updates
            \<lparr>upd_x := Some (max 0 (min (rect_width r - width ov)
                       (x_ov ov + (cx - rect_left r - fst (dragStart (comp u)))))),
             upd_y := Some (max 0 (min (rect_height r - height ov)
                       (y_ov ov + (cy - rect_top r - snd (dragStart (comp u))))))\<rparr>) (app u)
    \<and> comp (mouseMove (Some r) cx cy u)
        = (comp u)\<lparr>dragStart := (cx - rect_left r, cy - rect_top r)\<rparr>"
  using handleMouseMove_drag [OF assms, of r cx cy] find_id [OF assms(3)]
  by (simp add: mouseMove_def)

lemma mouseMove_resize:
  assumes "\<not> truthy (dragging (comp u))" and "resizing (comp u) = Some i" and "i \<noteq> []"
    and "find (\<lambda>ov. Some (id_ov ov) = Some i) (foreground (assetOverlays (app u))) = Some ov"
  shows "app (mouseMove (Some r) cx cy u)
     = handleUpdateOverlay i
         (no_updates
            \<lparr>upd_width := Some (max 20 (width ov + (cx - rect_left r - fst (dragStart (comp u))))),
             upd_height := Some (max 20 (height ov + (cy - rect_top r - snd (dragStart (comp u)))))\<rparr>)
         (app u)
    \<and> comp (mouseMove (Some r) cx cy u)
        = (comp u)\<lparr>dragStart := (cx - rect_left r, cy - rect_top r)\<rparr>"
  using handleMouseMove_resize [OF assms, of r cx cy] find_id [OF assms(4)]
  by (simp add: mouseMove_def)

text \<open>
  Claim C7, as the code has it. Let a pointer move arrive while the component's target
  overlay is among the foreground overlays. If a resize is active, every overlay
  with the target's identity then has width and height at least \<open>20\<close>. If a drag is
  active, the target keeps its size and its new position has \<open>x \<ge> 0\<close> and \<open>y \<ge> 0\<close>;
  on an axis where the overlay is no larger than the container the position is at most
  the container's size minus the overlay's, and on an axis where it is larger the
  position is \<open>0\<close>.
\<close>

theorem pointer_move_bounds:
  assumes "find (\<lambda>ov. Some (id_ov ov) = Some i) (foreground (assetOverlays (app u))) = Some ov"
    and "i \<noteq> []"
  shows "(\<not> truthy (dragging (comp u)) \<and> resizing (comp u) = Some i \<longrightarrow>
          (\<exists>ov'. find (\<lambda>ov. Some (id_ov ov) = Some i)
                    (foreground (assetOverlays (app (mouseMove (Some r) cx cy u)))) = Some ov'
             \<and> 20 \<le> width ov' \<and> 20 \<le> height ov')
          \<and> (\<forall>ov' \<in> set (assetOverlays (app (mouseMove (Some r) cx cy u))).
                id_ov ov' = i \<longrightarrow> 20 \<le> width ov' \<and> 20 \<le> height ov'))
    \<and> (dragging (comp u) = Some i \<longrightarrow>
          (\<exists>ov'. find (\<lambda>ov. Some (id_ov ov) = Some i)
                    (foreground (assetOverlays (app (mouseMove (Some r) cx cy u)))) = Some ov'
             \<and> width ov' = width ov \<and> height ov' = height ov
             \<and> 0 \<le> x_ov ov' \<and> 0 \<le> y_ov ov'
             \<and> (width ov' \<le> rect_width r \<longrightarrow> x_ov ov' \<le> rect_width r - width ov')
             \<and> (height ov' \<le> rect_height r \<longrightarrow> y_ov ov' \<le> rect_height r - height ov')
             \<and> (rect_width r < width ov' \<longrightarrow> x_ov ov' = 0)
             \<and> (rect_height r < height ov' \<longrightarrow> y_ov ov' = 0)))"
proof (intro conjI impI)
  assume a: "\<not> truthy (dragging (comp u)) \<and> resizing (comp u) = Some i"
  define upd where "upd = no_updates
            \<lparr>upd_width := Some (max 20 (width ov + (cx - rect_left r - fst (dragStart (comp u))))),
             upd_height := Some (max 20 (height ov + (cy - rect_top r - snd (dragStart (comp u)))))\<rparr>"
  have app: "app (mouseMove (Some r) cx cy u) = handleUpdateOverlay i upd (app u)"
    using mouseMove_resize [of u i ov r cx cy] a assms unfolding upd_def by blast
  have keep: "upd_id upd = None" "upd_category upd = None"
    by (simp_all add: upd_def no_updates_def)
  have found: "find (\<lambda>ov. Some (id_ov ov) = Some i)
                 (foreground (assetOverlays (app (mouseMove (Some r) cx cy u))))
               = Some (merge_overlay ov upd)"
    unfolding app handleUpdateOverlay_def
    using find_after_update [OF keep, of i "assetOverlays (app u)"] assms(1) by simp
  have size: "20 \<le> width (merge_overlay w upd) \<and> 20 \<le> height (merge_overlay w upd)" for w
    by (simp add: merge_overlay_def or_else_def upd_def)
  show "\<exists>ov'. find (\<lambda>ov. Some (id_ov ov) = Some i)
                    (foreground (assetOverlays (app (mouseMove (Some r) cx cy u)))) = Some ov'
             \<and> 20 \<le> width ov' \<and> 20 \<le> height ov'"
    using found size by blast
  show "\<forall>ov' \<in> set (assetOverlays (app (mouseMove (Some r) cx cy u))).
                id_ov ov' = i \<longrightarrow> 20 \<le> width ov' \<and> 20 \<le> height ov'"
  proof (intro ballI impI)
    fix ov' assume m: "ov' \<in> set (assetOverlays (app (mouseMove (Some r) cx cy u)))"
      and d: "id_ov ov' = i"
    from m obtain w where w: "w \<in> set (assetOverlays (app u))"
        and eq: "ov' = (if id_ov w = i then merge_overlay w upd else w)"
      unfolding app handleUpdateOverlay_def by auto
    have "id_ov w = i"
      using d eq keep(1) by (cases "id_ov w = i") (simp_all add: id_merge_moved)
    then show "20 \<le> width ov' \<and> 20 \<le> height ov'"
      using eq size by simp
  qed
next
  assume a: "dragging (comp u) = Some i"
  define nx where "nx = max 0 (min (rect_width r - width ov)
                       (x_ov ov + (cx - rect_left r - fst (dragStart (comp u)))))"
  define ny where "ny = max 0 (min (rect_height r - height ov)
                       (y_ov ov + (cy - rect_top r - snd (dragStart (comp u)))))"
  define upd where "upd = no_updates\<lparr>upd_x := Some nx, upd_y := Some ny\<rparr>"
  have app: "app (mouseMove (Some r) cx cy u) = handleUpdateOverlay i upd (app u)"
    using mouseMove_drag [of u i ov r cx cy] a assms unfolding upd_def nx_def ny_def by blast
  have keep: "upd_id upd = None" "upd_category upd = None"
    by (simp_all add: upd_def no_updates_def)
  have found: "find (\<lambda>ov. Some (id_ov ov) = Some i)
                 (foreground (assetOverlays (app (mouseMove (Some r) cx cy u))))
               = Some (merge_overlay ov upd)"
    unfolding app handleUpdateOverlay_def
    using find_after_update [OF keep, of i "assetOverlays (app u)"] assms(1) by simp
  have fields: "width (merge_overlay ov upd) = width ov" "height (merge_overlay ov upd) = height ov"
    "x_ov (merge_overlay ov upd) = nx" "y_ov (merge_overlay ov upd) = ny"
    by (simp_all add: merge_overlay_def or_else_def upd_def no_updates_def)
  have bx: "0 \<le> nx \<and> (width ov \<le> rect_width r \<longrightarrow> nx \<le> rect_width r - width ov)
      \<and> (rect_width r < width ov \<longrightarrow> nx = 0)"
    unfolding nx_def by auto
  have by': "0 \<le> ny \<and> (height ov \<le> rect_height r \<longrightarrow> ny \<le> rect_height r - height ov)
      \<and> (rect_height r < height ov \<longrightarrow> ny = 0)"
    unfolding ny_def by auto
  show "\<exists>ov'. find (\<lambda>ov. Some (id_ov ov) = Some i)
                    (foreground (assetOverlays (app (mouseMove (Some r) cx cy u)))) = Some ov'
             \<and> width ov' = width ov \<and> height ov' = height ov
             \<and> 0 \<le> x_ov ov' \<and> 0 \<le> y_ov ov'
             \<and> (width ov' \<le> rect_width r \<longrightarrow> x_ov ov' \<le> rect_width r - width ov')
             \<and> (height ov' \<le> rect_height r \<longrightarrow> y_ov ov' \<le> rect_height r - height ov')
             \<and> (rect_width r < width ov' \<longrightarrow> x_ov ov' = 0)
             \<and> (rect_height r < height ov' \<longrightarrow> y_ov ov' = 0)"
    using found fields bx by' by simp
qed

text \<open>A session that makes an overlay larger than its container.\<close>

lemma glasses_new: "newOverlay 1702 ''k3j9x0q1z'' eyes_asset = glasses_at 50 50 100 100"
  by (simp add: newOverlay_def eyes_asset_def zIndex_for_def show_nat.simps digit_char_def
        glasses_at_def glasses_id_def)

lemma holding_find:
  "find (\<lambda>ov. Some (id_ov ov) = Some glasses_id)
     (foreground (assetOverlays (app (holding (glasses_at px py w h) st))))
   = Some (glasses_at px py w h)"
  by (simp add: holding_def foreground_def glasses_at_def)

lemma glasses_id_nonempty: "glasses_id \<noteq> []"
  by (simp add: glasses_id_def)

lemma holding_drag:
  "mouseMove (Some box400) cx cy
     (holding (glasses_at px py w h) \<lparr>dragging = Some glasses_id, dragStart = (ax, ay), resizing = rs\<rparr>)
   = holding (glasses_at (max 0 (min (400 - w) (px + (cx - ax))))
                         (max 0 (min (400 - h) (py + (cy - ay)))) w h)
       \<lparr>dragging = Some glasses_id, dragStart = (cx, cy), resizing = rs\<rparr>"
  by (simp add: mouseMove_def handleMouseMove_def truthy_def glasses_id_nonempty Let_def
        holding_def foreground_def glasses_at_def box400_def handleUpdateOverlay_def
        merge_overlay_def or_else_def no_updates_def)

lemma holding_resize:
  "mouseMove (Some box400) cx cy
     (holding (glasses_at px py w h) \<lparr>dragging = None, dragStart = (ax, ay), resizing = Some glasses_id\<rparr>)
   = holding (glasses_at px py (max 20 (w + (cx - ax))) (max 20 (h + (cy - ay))))
       \<lparr>dragging = None, dragStart = (cx, cy), resizing = Some glasses_id\<rparr>"
  by (simp add: mouseMove_def handleMouseMove_def truthy_def glasses_id_nonempty Let_def
        holding_def foreground_def glasses_at_def box400_def handleUpdateOverlay_def
        merge_overlay_def or_else_def no_updates_def)

lemma holding_down:
  "on_comp (handleMouseDown (Some box400) cx cy i act) (holding ov st)
   = holding ov
       ((case act of Drag \<Rightarrow> st\<lparr>dragging := Some i\<rparr> | Resize \<Rightarrow> st\<lparr>resizing := Some i\<rparr>)
          \<lparr>dragStart := (cx, cy)\<rparr>)"
  by (simp add: on_comp_def handleMouseDown_def holding_def box400_def Let_def)

lemma holding_up:
  "on_comp handleMouseUp (holding ov st) = holding ov (st\<lparr>dragging := None, resizing := None\<rparr>)"
  by (simp add: on_comp_def handleMouseUp_def holding_def)

lemma selected_glasses:
  "on_app (handleAssetSelect 1702 ''k3j9x0q1z'' eyes_asset)
     (on_app (loadZazuImage (Inr zazu_response)) initial_ui)
   = holding (glasses_at 50 50 100 100) initial_overlay_state"
proof -
  have none: "assetOverlays (with_history [zazuFile] 0) = []"
    by (simp add: with_history_def initial_state_def)
  show ?thesis
    by (simp add: on_app_def initial_ui_def loaded_zazu handleAssetSelect_def currentImage_with_history
          glasses_new holding_def none)
qed

lemma run_session_oversize: "run atob session_oversize initial_ui = oversized"
  by (simp add: session_oversize_def selected_glasses holding_down holding_up holding_resize
        holding_drag initial_overlay_state_def oversized_def)

text \<open>
  Claim C7 fails as stated. In the state reached from the start by loading the image,
  adding the glasses, resizing, dragging to the corner and resizing again, the overlay
  is \<open>408\<close> wide in a container \<open>400\<close> wide; the next step of a drag leaves it
  at \<open>x = 0\<close>, above the claimed upper bound \<open>400 - 408\<close>.
\<close>

theorem drag_leaves_bounds:
  "run atob_sample session_oversize initial_ui = oversized
   \<and> dragging (comp oversized) = Some glasses_id
   \<and> assetOverlays (app (mouseMove (Some box400) 101 101 oversized)) = [glasses_at 0 0 408 408]
   \<and> \<not> (0 \<le> x_ov (glasses_at 0 0 408 408)
         \<and> x_ov (glasses_at 0 0 408 408) \<le> rect_width box400 - width (glasses_at 0 0 408 408))"
  by (simp add: run_session_oversize, simp add: oversized_def holding_drag,
      simp add: holding_def glasses_at_def box400_def)

theorem pointer_move_bounds_witness:
  "find (\<lambda>ov. Some (id_ov ov) = Some glasses_id)
     (foreground (assetOverlays (app (mouseMove (Some box400) 180 170
        (holding (glasses_at 50 50 100 100)
           \<lparr>dragging = None, dragStart = (140, 140), resizing = Some glasses_id\<rparr>)))))
     = Some (glasses_at 50 50 140 130)
   \<and> find (\<lambda>ov. Some (id_ov ov) = Some glasses_id)
     (foreground (assetOverlays (app (mouseMove (Some box400) 500 20
        (holding (glasses_at 50 50 100 100)
           \<lparr>dragging = Some glasses_id, dragStart = (60, 60), resizing = None\<rparr>)))))
     = Some (glasses_at 300 10 100 100)
   \<and> find (\<lambda>ov. Some (id_ov ov) = Some glasses_id)
     (foreground (assetOverlays (app (mouseMove (Some box400) 101 101 oversized))))
     = Some (glasses_at 0 0 408 408)"
proof -
  let ?rs = "holding (glasses_at 50 50 100 100)
           \<lparr>dragging = None, dragStart = (140, 140), resizing = Some glasses_id\<rparr>"
  let ?dr = "holding (glasses_at 50 50 100 100)
           \<lparr>dragging = Some glasses_id, dragStart = (60, 60), resizing = None\<rparr>"
  have rs: "\<not> truthy (dragging (comp ?rs)) \<and> resizing (comp ?rs) = Some glasses_id"
    by (simp add: holding_def truthy_def)
  have dr: "dragging (comp ?dr) = Some glasses_id"
    by (simp add: holding_def)
  have ov: "dragging (comp oversized) = Some glasses_id"
    by (simp add: oversized_def holding_def)
  have w: "width (glasses_at px py w h) = w" "height (glasses_at px py w h) = h"
    "x_ov (glasses_at px py w h) = px" "y_ov (glasses_at px py w h) = py" for px py w h
    by (simp_all add: glasses_at_def)
  show ?thesis
    using pointer_move_bounds [OF holding_find glasses_id_nonempty, of 50 50 100 100 _ box400 180 170]
      pointer_move_bounds [OF holding_find glasses_id_nonempty, of 50 50 100 100 _ box400 500 20]
      pointer_move_bounds [OF holding_find [of 0 0 408 408] glasses_id_nonempty, of _ box400 101 101]
    by (simp add: holding_resize holding_drag oversized_def rs dr w)
       (simp add: holding_def foreground_def glasses_at_def)
qed

end
